theory Spec2Isabelle
  imports Complex_Main
begin

section \<open>JavaScript library functions used by the components\<close>

text \<open>
  Strings are lists of characters.  The components only compare, split and concatenate
  them, so JavaScript's UTF-16 code units and the bytes of \<^typ>\<open>char\<close> agree on every
  ASCII string; the whitespace and the letters handled below are the ASCII ones.
\<close>

text \<open>\<^verbatim>\<open>xs.slice(-n)\<close>: the last \<open>n\<close> elements, the whole array when it is shorter.\<close>

definition slice_last :: "nat \<Rightarrow> 'a list \<Rightarrow> 'a list" where
  "slice_last n xs = drop (length xs - n) xs"

text \<open>
  \<^verbatim>\<open>str.split(sep)\<close> for a one-character separator: never empty, \<^verbatim>\<open>"".split(".")\<close> is
  \<^verbatim>\<open>[""]\<close> and a trailing separator gives a trailing empty string.
\<close>

fun split_js :: "char \<Rightarrow> string \<Rightarrow> string list" where
  "split_js sep [] = [[]]"
| "split_js sep (c # cs) =
     (if c = sep then [] # split_js sep cs
      else (case split_js sep cs of
              p # ps \<Rightarrow> (c # p) # ps
            | [] \<Rightarrow> [[c]]))"

text \<open>\<^verbatim>\<open>xs.join(sep)\<close>.\<close>

fun join_js :: "string \<Rightarrow> string list \<Rightarrow> string" where
  "join_js sep [] = []"
| "join_js sep [x] = x"
| "join_js sep (x # y # ys) = x @ sep @ join_js sep (y # ys)"

text \<open>White space as \<^verbatim>\<open>trim()\<close> and \<^verbatim>\<open>parseInt\<close> skip it: TAB, LF, VT, FF, CR, space.\<close>

definition is_space :: "char \<Rightarrow> bool" where
  "is_space c = (c = CHR 0x09 \<or> c = CHR 0x0A \<or> c = CHR 0x0B \<or> c = CHR 0x0C
     \<or> c = CHR 0x0D \<or> c = CHR 0x20)"

definition trim :: "string \<Rightarrow> string" where
  "trim str = rev (dropWhile is_space (rev (dropWhile is_space str)))"

text \<open>A string is truthy when it is not empty; \<^verbatim>\<open>!str\<close> holds when it is empty.\<close>

definition truthy :: "string \<Rightarrow> bool" where
  "truthy str = (str \<noteq> [])"

definition falsy :: "string \<Rightarrow> bool" where
  "falsy str = (str = [])"

definition toLowerCase_char :: "char \<Rightarrow> char" where
  "toLowerCase_char c =
     (case map_of (zip ''ABCDEFGHIJKLMNOPQRSTUVWXYZ'' ''abcdefghijklmnopqrstuvwxyz'') c of
        Some d \<Rightarrow> d
      | None \<Rightarrow> c)"

definition toLowerCase :: "string \<Rightarrow> string" where
  "toLowerCase str = map toLowerCase_char str"

definition startsWith :: "string \<Rightarrow> string \<Rightarrow> bool" where
  "startsWith str pre = (take (length pre) str = pre)"

text \<open>Decimal rendering of a number inside a template literal.\<close>

fun string_of_nat :: "nat \<Rightarrow> string" where
  "string_of_nat n =
     (if n < 10 then [''0123456789'' ! n]
      else string_of_nat (n div 10) @ [''0123456789'' ! (n mod 10)])"

declare string_of_nat.simps [simp del]

text \<open>
  \<^verbatim>\<open>parseInt(str)\<close> with no radix: leading white space is skipped, then an optional
  sign, then an optional \<^verbatim>\<open>0x\<close> prefix selecting radix 16, then the longest prefix of
  digits.  No digit at all gives \<^verbatim>\<open>NaN\<close>, which is \<open>None\<close> here.  (Beyond \<open>2^53\<close> the
  JavaScript result is rounded to a double; the model keeps the exact integer.)
\<close>

definition digit_of :: "nat \<Rightarrow> char \<Rightarrow> nat option" where
  "digit_of radix c =
     (case map_of (zip ''0123456789abcdef''
                       [0, 1, 2, 3, 4, 5, 6, 7, 8, 9, 10, 11, 12, 13, 14, 15])
             (toLowerCase_char c) of
        None \<Rightarrow> None
      | Some d \<Rightarrow> if d < radix then Some d else None)"

fun digits_prefix :: "nat \<Rightarrow> string \<Rightarrow> nat list" where
  "digits_prefix radix [] = []"
| "digits_prefix radix (c # cs) =
     (case digit_of radix c of
        None \<Rightarrow> []
      | Some d \<Rightarrow> d # digits_prefix radix cs)"

definition parseInt :: "string \<Rightarrow> int option" where
  "parseInt str =
     (let s1 = dropWhile is_space str;
          neg = (take 1 s1 = ''-'');
          s2 = (if take 1 s1 = ''-'' \<or> take 1 s1 = ''+'' then drop 1 s1 else s1);
          hex = (take 2 s2 = ''0x'' \<or> take 2 s2 = ''0X'');
          radix = (if hex then 16 else 10);
          ds = digits_prefix radix (if hex then drop 2 s2 else s2);
          v = int (foldl (\<lambda>a d. a * radix + d) 0 ds)
      in if ds = [] then None else Some (if neg then - v else v))"

text \<open>\<^verbatim>\<open>parseInt(str) || d\<close>: \<^verbatim>\<open>NaN\<close> and \<open>0\<close> are falsy.\<close>

definition parseInt_or :: "string \<Rightarrow> int \<Rightarrow> int" where
  "parseInt_or str d =
     (case parseInt str of
        None \<Rightarrow> d
      | Some v \<Rightarrow> if v = 0 then d else v)"

text \<open>What a \<^verbatim>\<open>catch (err)\<close> clause receives: an \<^verbatim>\<open>Error\<close> with its message, or anything else.\<close>

datatype thrown = ErrorObj string | NonError

text \<open>
  The lines of a decoded chunk that the streaming loops look at:
  \<^verbatim>\<open>chunk.split('\n').filter(line => line.trim())\<close>.
\<close>

definition chunk_lines :: "string \<Rightarrow> string list" where
  "chunk_lines chunk = filter (\<lambda>line. truthy (trim line)) (split_js (CHR 0x0A) chunk)"

section \<open>ScenarioOrchestrator\<close>

datatype dest_type = Hec | Syslog

record destination =
  dest_id :: string
  dest_name :: string
  dest_type :: dest_type

record scenario =
  scen_id :: string
  scen_name :: string
  description :: string
  duration_days :: "int option"
  duration_minutes :: "int option"
  total_events :: int
  phases :: "string list"

record scenario_config =
  scenario_id :: string
  destination_id :: string
  workers :: int
  tag_phase :: bool
  tag_trace :: bool
  trace_id :: string
  generate_noise :: bool
  noise_events_count :: int

text \<open>
  The component's state hooks, and \<open>requests\<close>: the bodies of the
  \<^verbatim>\<open>POST /api/v1/scenarios/run\<close> requests issued so far, oldest first.
\<close>

record orch_state =
  scenarios :: "scenario list"
  destinations :: "destination list"
  config :: scenario_config
  isRunning :: bool
  progress :: "string list"
  error :: string
  loading :: bool
  requests :: "scenario_config list"

definition initial_config :: scenario_config where
  "initial_config =
     \<lparr>scenario_id = '''', destination_id = '''', workers = 10, tag_phase = True,
      tag_trace = True, trace_id = '''', generate_noise = False,
      noise_events_count = 1200\<rparr>"

definition initial_state :: orch_state where
  "initial_state =
     \<lparr>scenarios = [], destinations = [], config = initial_config, isRunning = False,
      progress = [], error = '''', loading = True, requests = []\<rparr>"

text \<open>\<^verbatim>\<open>setProgress(prev => [...prev.slice(-30), line])\<close>\<close>

definition append_line :: "string list \<Rightarrow> string \<Rightarrow> string list" where
  "append_line prev line = slice_last 30 prev @ [line]"

text \<open>
  \<open>runScenario\<close> up to its first \<^verbatim>\<open>await\<close>: the validation, the three state updates
  and the call of \<^verbatim>\<open>fetch\<close> with the configuration as body.
\<close>

definition runScenario_start :: "orch_state \<Rightarrow> orch_state" where
  "runScenario_start s =
     (if falsy (scenario_id (config s)) \<or> falsy (destination_id (config s))
      then s\<lparr>error := ''Please select both scenario and destination''\<rparr>
      else s\<lparr>isRunning := True,
             progress := [''Initializing attack scenario...''],
             error := '''',
             requests := requests s @ [config s]\<rparr>)"

text \<open>The \<^verbatim>\<open>catch\<close> block followed by the \<^verbatim>\<open>finally\<close> block.\<close>

definition runScenario_catch :: "thrown \<Rightarrow> orch_state \<Rightarrow> orch_state" where
  "runScenario_catch err s =
     (let errorMsg = (case err of ErrorObj m \<Rightarrow> m | NonError \<Rightarrow> ''Scenario execution failed'')
      in s\<lparr>error := errorMsg,
            progress := progress s @ [''ERROR: '' @ errorMsg],
            isRunning := False\<rparr>)"

text \<open>The end of the \<^verbatim>\<open>try\<close> block (line 164) followed by the \<^verbatim>\<open>finally\<close> block.\<close>

definition runScenario_finish :: "orch_state \<Rightarrow> orch_state" where
  "runScenario_finish s =
     s\<lparr>progress := progress s @ [''Attack scenario completed successfully!''],
       isRunning := False\<rparr>"

text \<open>
  What \<^verbatim>\<open>await fetch(...)\<close> gives: a rejection, or a response with its status and whether
  it has a body to read.
\<close>

datatype fetch_result =
    FetchThrows thrown
  | Response (resp_ok: bool) (resp_status: nat) (resp_statusText: string) (resp_has_body: bool)

text \<open>
  A step of the asynchronous function gives the new state and whether the function is
  still running (waiting for the next \<^verbatim>\<open>reader.read()\<close>).
\<close>

fun runScenario_response :: "fetch_result \<Rightarrow> orch_state \<Rightarrow> orch_state \<times> bool" where
  "runScenario_response (FetchThrows err) s = (runScenario_catch err s, False)"
| "runScenario_response (Response ok status statusText has_body) s =
     (if \<not> ok
      then (runScenario_catch
              (ErrorObj (''HTTP '' @ string_of_nat status @ '': '' @ statusText)) s, False)
      else if has_body then (s, True)
      else (runScenario_finish s, False))"

datatype read_result = ReadChunk string | ReadDone | ReadThrows thrown

fun runScenario_read :: "read_result \<Rightarrow> orch_state \<Rightarrow> orch_state \<times> bool" where
  "runScenario_read (ReadChunk chunk) s =
     (s\<lparr>progress := foldl append_line (progress s) (chunk_lines chunk)\<rparr>, True)"
| "runScenario_read ReadDone s = (runScenario_finish s, False)"
| "runScenario_read (ReadThrows err) s = (runScenario_catch err s, False)"

definition stopScenario :: "orch_state \<Rightarrow> orch_state" where
  "stopScenario s =
     s\<lparr>isRunning := False,
       progress := progress s @ [''Scenario execution stopped by user'']\<rparr>"

text \<open>The Stop button is rendered only while \<open>isRunning\<close> holds.\<close>

definition click_stop :: "orch_state \<Rightarrow> orch_state" where
  "click_stop s = (if isRunning s then stopScenario s else s)"

definition clearProgress :: "orch_state \<Rightarrow> orch_state" where
  "clearProgress s = s\<lparr>progress := [], error := ''''\<rparr>"

text \<open>
  \<open>generateTraceId\<close>; the two arguments are what \<^verbatim>\<open>Date.now().toString(36)\<close> and
  \<^verbatim>\<open>Math.random().toString(36).substring(2, 8)\<close> return.
\<close>

definition generateTraceId :: "string \<Rightarrow> string \<Rightarrow> orch_state \<Rightarrow> orch_state" where
  "generateTraceId timestamp random s =
     s\<lparr>config := (config s)\<lparr>trace_id := ''pulse-'' @ timestamp @ ''-'' @ random\<rparr>\<rparr>"

text \<open>The \<^verbatim>\<open>onChange\<close> handler of the "Parallel Workers" input; \<open>v\<close> is \<^verbatim>\<open>e.target.value\<close>.\<close>

definition onChange_workers :: "string \<Rightarrow> orch_state \<Rightarrow> orch_state" where
  "onChange_workers v s = s\<lparr>config := (config s)\<lparr>workers := parseInt_or v 1\<rparr>\<rparr>"

text \<open>
  The options of the destination select (besides the empty one):
  \<^verbatim>\<open>destinations.filter(d => d.type === 'hec')\<close>.
\<close>

definition destination_options :: "orch_state \<Rightarrow> destination list" where
  "destination_options s = filter (\<lambda>d. dest_type d = Hec) (destinations s)"

definition onChange_destination :: "string \<Rightarrow> orch_state \<Rightarrow> orch_state" where
  "onChange_destination v s = s\<lparr>config := (config s)\<lparr>destination_id := v\<rparr>\<rparr>"

section \<open>FileUploader\<close>

record uploaded_file =
  uf_id :: string
  uf_filename :: string
  uf_file_type :: string
  uf_size :: nat
  uf_line_count :: nat
  uf_created_at :: string

text \<open>A browser \<^verbatim>\<open>File\<close>: its name and its size in bytes.\<close>

record browser_file =
  file_name :: string
  file_size :: nat

datatype endpoint = Event | Raw

record process_config =
  pc_destination :: string
  pc_sourcetype :: string
  pc_batch_size :: int
  pc_eps :: real
  pc_endpoint :: endpoint

text \<open>The requests the component issues.\<close>

datatype upload_request =
    UploadFile browser_file
  | ListUploads
  | ProcessUpload string process_config

record uploader_state =
  files :: "uploaded_file list"
  destinations_fu :: "destination list"
  dragActive :: bool
  uploading :: bool
  processing :: "string option"
  progress_fu :: "string list"
  error_fu :: string
  processConfig :: process_config
  requests_fu :: "upload_request list"

definition allowedTypes :: "string list" where
  "allowedTypes = [''.csv'', ''.json'', ''.txt'', ''.log'', ''.gz'']"

text \<open>
  \<^verbatim>\<open>'.' + file.name.split('.').pop()?.toLowerCase()\<close>.  The array that \<open>split\<close> returns
  is never empty; were it empty, the concatenation would give \<^verbatim>\<open>".undefined"\<close>.
\<close>

definition fileExt :: "string \<Rightarrow> string" where
  "fileExt name =
     (case rev (split_js CHR ''.'' name) of
        [] \<Rightarrow> ''.undefined''
      | p # _ \<Rightarrow> ''.'' @ toLowerCase p)"

text \<open>
  The extension of a file name in the usual sense, which is what the description of the
  upload check speaks of: the part of the name from its last dot on, in lower case; a
  name without a dot has no extension.
\<close>

definition extension_spec :: "string \<Rightarrow> string" where
  "extension_spec name =
     (if CHR ''.'' \<in> set name
      then ''.'' @ toLowerCase (rev (takeWhile (\<lambda>c. c \<noteq> CHR ''.'') (rev name)))
      else [])"

text \<open>
  \<open>handleFiles\<close> up to its first \<^verbatim>\<open>await\<close>; the flag says whether the function goes on
  (the upload request has been issued).
\<close>

definition handleFiles_start :: "browser_file list \<Rightarrow> uploader_state \<Rightarrow> uploader_state \<times> bool" where
  "handleFiles_start fileList s =
     (case fileList of
        [] \<Rightarrow> (s, False)
      | file # _ \<Rightarrow>
          if fileExt (file_name file) \<notin> set allowedTypes
          then (s\<lparr>error_fu := ''Invalid file type. Allowed: '' @ join_js '', '' allowedTypes\<rparr>,
                False)
          else if file_size file > 50 * 1024 * 1024
          then (s\<lparr>error_fu := ''File size must be less than 50MB''\<rparr>, False)
          else (s\<lparr>uploading := True, error_fu := [],
                  requests_fu := requests_fu s @ [UploadFile file]\<rparr>, True))"

definition handleFiles_catch :: "thrown \<Rightarrow> uploader_state \<Rightarrow> uploader_state" where
  "handleFiles_catch err s =
     s\<lparr>error_fu := (case err of ErrorObj m \<Rightarrow> m | NonError \<Rightarrow> ''Upload failed''),
       uploading := False\<rparr>"

text \<open>
  The response to the upload: a rejection, a response that is not ok (with the
  \<open>error\<close> field of its JSON body, when it has one), or an ok response, after which
  \<open>fetchFiles\<close> asks for the list of uploads.
\<close>

datatype upload_result =
    UploadThrows thrown
  | UploadNotOk nat "string option"
  | UploadOk

fun handleFiles_response :: "upload_result \<Rightarrow> uploader_state \<Rightarrow> uploader_state \<times> bool" where
  "handleFiles_response (UploadThrows err) s = (handleFiles_catch err s, False)"
| "handleFiles_response (UploadNotOk status err) s =
     (handleFiles_catch
        (ErrorObj (case err of
                     None \<Rightarrow> ''HTTP '' @ string_of_nat status
                   | Some m \<Rightarrow> if truthy m then m else ''HTTP '' @ string_of_nat status)) s,
      False)"
| "handleFiles_response UploadOk s = (s\<lparr>requests_fu := requests_fu s @ [ListUploads]\<rparr>, True)"

text \<open>
  The end of \<open>fetchFiles\<close> (\<open>None\<close>: it failed and set its own message), then the rest
  of \<open>handleFiles\<close>.
\<close>

fun handleFiles_listed :: "uploaded_file list option \<Rightarrow> uploader_state \<Rightarrow> uploader_state" where
  "handleFiles_listed None s = s\<lparr>error_fu := [], uploading := False\<rparr>"
| "handleFiles_listed (Some uploads) s = s\<lparr>files := uploads, error_fu := [], uploading := False\<rparr>"

text \<open>\<^verbatim>\<open>setProgress(prev => [...prev.slice(-20), line])\<close>\<close>

definition append_line_fu :: "string list \<Rightarrow> string \<Rightarrow> string list" where
  "append_line_fu prev line = slice_last 20 prev @ [line]"

definition processFile_start :: "string \<Rightarrow> uploader_state \<Rightarrow> uploader_state" where
  "processFile_start fileId s =
     (if falsy (pc_destination (processConfig s)) \<or> falsy (pc_sourcetype (processConfig s))
      then s\<lparr>error_fu := ''Please select destination and enter sourcetype''\<rparr>
      else s\<lparr>processing := Some fileId,
             progress_fu := [''Starting file processing...''],
             error_fu := [],
             requests_fu := requests_fu s @ [ProcessUpload fileId (processConfig s)]\<rparr>)"

definition processFile_catch :: "thrown \<Rightarrow> uploader_state \<Rightarrow> uploader_state" where
  "processFile_catch err s =
     (let errorMsg = (case err of ErrorObj m \<Rightarrow> m | NonError \<Rightarrow> ''Processing failed'')
      in s\<lparr>error_fu := errorMsg,
            progress_fu := progress_fu s @ [''ERROR: '' @ errorMsg],
            processing := None\<rparr>)"

definition processFile_finish :: "uploader_state \<Rightarrow> uploader_state" where
  "processFile_finish s =
     s\<lparr>progress_fu := progress_fu s @ [''File processing completed successfully!''],
       processing := None\<rparr>"

fun processFile_response :: "fetch_result \<Rightarrow> uploader_state \<Rightarrow> uploader_state \<times> bool" where
  "processFile_response (FetchThrows err) s = (processFile_catch err s, False)"
| "processFile_response (Response ok status statusText has_body) s =
     (if \<not> ok
      then (processFile_catch
              (ErrorObj (''HTTP '' @ string_of_nat status @ '': '' @ statusText)) s, False)
      else if has_body then (s, True)
      else (processFile_finish s, False))"

fun processFile_read :: "read_result \<Rightarrow> uploader_state \<Rightarrow> uploader_state \<times> bool" where
  "processFile_read (ReadChunk chunk) s =
     (s\<lparr>progress_fu := foldl append_line_fu (progress_fu s) (chunk_lines chunk)\<rparr>, True)"
| "processFile_read ReadDone s = (processFile_finish s, False)"
| "processFile_read (ReadThrows err) s = (processFile_catch err s, False)"

section \<open>EventGenerator\<close>

text \<open>The \<open>metadata\<close> of the configuration is always the empty object and is left out.\<close>

record generation_config =
  gc_generator :: string
  gc_destination :: string
  gc_count :: int
  gc_eps :: real
  gc_continuous :: bool

record generator_state =
  config_eg :: generation_config
  destinations_eg :: "destination list"
  isGenerating :: bool
  progress_eg :: "string list"
  error_eg :: string
  requests_eg :: "generation_config list"

text \<open>\<^verbatim>\<open>setProgress(prev => [...prev.slice(-20), progressLine])\<close>\<close>

definition append_line_eg :: "string list \<Rightarrow> string \<Rightarrow> string list" where
  "append_line_eg prev progressLine = slice_last 20 prev @ [progressLine]"

text \<open>The body of the loop over the lines of a chunk: only \<^verbatim>\<open>data: \<close> lines are shown.\<close>

definition show_line :: "string list \<Rightarrow> string \<Rightarrow> string list" where
  "show_line prev line =
     (if startsWith line ''data: '' then append_line_eg prev (drop 6 line) else prev)"

definition startGeneration_start :: "generator_state \<Rightarrow> generator_state" where
  "startGeneration_start s =
     (if falsy (gc_generator (config_eg s)) \<or> falsy (gc_destination (config_eg s))
      then s\<lparr>error_eg := ''Please select both generator and destination''\<rparr>
      else s\<lparr>isGenerating := True,
             progress_eg := [''Starting event generation...''],
             error_eg := [],
             requests_eg := requests_eg s @ [config_eg s]\<rparr>)"

definition startGeneration_catch :: "thrown \<Rightarrow> generator_state \<Rightarrow> generator_state" where
  "startGeneration_catch err s =
     (let errorMsg = (case err of ErrorObj m \<Rightarrow> m | NonError \<Rightarrow> ''Generation failed'')
      in s\<lparr>error_eg := errorMsg,
            progress_eg := progress_eg s @ [''ERROR: '' @ errorMsg],
            isGenerating := False\<rparr>)"

definition startGeneration_finish :: "generator_state \<Rightarrow> generator_state" where
  "startGeneration_finish s =
     s\<lparr>progress_eg := progress_eg s @ [''Generation completed successfully!''],
       isGenerating := False\<rparr>"

fun startGeneration_read :: "read_result \<Rightarrow> generator_state \<Rightarrow> generator_state \<times> bool" where
  "startGeneration_read (ReadChunk chunk) s =
     (s\<lparr>progress_eg := foldl show_line (progress_eg s) (chunk_lines chunk)\<rparr>, True)"
| "startGeneration_read ReadDone s = (startGeneration_finish s, False)"
| "startGeneration_read (ReadThrows err) s = (startGeneration_catch err s, False)"

section \<open>DestinationManager\<close>

datatype protocol = TCP | UDP

record form_data =
  fd_name :: string
  fd_type :: dest_type
  fd_url :: string
  fd_ip :: string
  fd_port :: string
  fd_protocol :: protocol

text \<open>
  The values of the payload object: strings, and numbers as \<^verbatim>\<open>parseInt\<close> returns them
  (\<open>None\<close> is \<^verbatim>\<open>NaN\<close>).  The object is the list of its keys and values in insertion order.
\<close>

datatype json_value = JString string | JNumber "int option"

definition type_string :: "dest_type \<Rightarrow> string" where
  "type_string t = (case t of Hec \<Rightarrow> ''hec'' | Syslog \<Rightarrow> ''syslog'')"

definition protocol_string :: "protocol \<Rightarrow> string" where
  "protocol_string p = (case p of TCP \<Rightarrow> ''TCP'' | UDP \<Rightarrow> ''UDP'')"

text \<open>The \<open>payload\<close> that \<open>handleSubmit\<close> posts to \<^verbatim>\<open>/api/v1/destinations\<close>.\<close>

definition payload :: "form_data \<Rightarrow> (string \<times> json_value) list" where
  "payload formData =
     [(''name'', JString (fd_name formData)),
      (''type'', JString (type_string (fd_type formData)))] @
     (if fd_type formData = Hec
      then [(''url'', JString (fd_url formData))]
      else [(''ip'', JString (fd_ip formData)),
            (''port'', JNumber (parseInt (fd_port formData))),
            (''protocol'', JString (protocol_string (fd_protocol formData)))])"

section \<open>Sample states\<close>

text \<open>
  The orchestrator once its destinations are loaded (\<open>loaded_state\<close>), and once a
  scenario and a destination are selected as well (\<open>example_state\<close>); everything else
  is as the component initialises it.
\<close>

definition example_config :: scenario_config where
  "example_config =
     initial_config\<lparr>scenario_id := ''showcase_attack_scenario'', destination_id := ''d1''\<rparr>"

definition loaded_state :: orch_state where
  "loaded_state =
     initial_state\<lparr>destinations :=
                     [\<lparr>dest_id = ''d1'', dest_name = ''Lab HEC'', dest_type = Hec\<rparr>,
                      \<lparr>dest_id = ''d2'', dest_name = ''Lab syslog'', dest_type = Syslog\<rparr>],
                   loading := False\<rparr>"

definition example_state :: orch_state where
  "example_state = loaded_state\<lparr>config := example_config\<rparr>"

text \<open>The same state after \<open>runScenario\<close> was started and the response arrived.\<close>

definition running_state :: orch_state where
  "running_state =
     fst (runScenario_response (Response True 200 ''OK'' True) (runScenario_start example_state))"

text \<open>The form of the destination manager, filled in for each kind of destination.\<close>

definition hec_form :: form_data where
  "hec_form =
     \<lparr>fd_name = ''Lab HEC'', fd_type = Hec, fd_url = ''https://hec.example.net/raw'',
      fd_ip = [], fd_port = [], fd_protocol = TCP\<rparr>"

definition syslog_form :: form_data where
  "syslog_form =
     \<lparr>fd_name = ''Lab syslog'', fd_type = Syslog, fd_url = [],
      fd_ip = ''192.168.1.100'', fd_port = ''514'', fd_protocol = UDP\<rparr>"

text \<open>A small file whose name has no dot.\<close>

definition dotless_file :: browser_file where
  "dotless_file = \<lparr>file_name = ''csv'', file_size = 1\<rparr>"

definition batch_line :: "nat \<Rightarrow> string" where
  "batch_line n = ''INFO batch '' @ string_of_nat n @ '' sent''"

section \<open>The first render of a component\<close>

text \<open>
  A component is a function that React calls to render it.  The statements of its body
  run from top to bottom and initialise its \<^verbatim>\<open>const\<close> bindings one after the other.
  A function passed to \<^verbatim>\<open>useState\<close> is called at once, during the first render; a
  function passed to \<^verbatim>\<open>useEffect\<close> is called after the render, when every binding
  is initialised.  Reading a \<^verbatim>\<open>const\<close> before its statement has run throws a
  \<^verbatim>\<open>ReferenceError\<close>, and the render fails: no handler of the component is ever
  created or attached.
\<close>

datatype stmt =
    Declare "string list"
  | Call_now "string list"
  | Call_after_render "string list"

datatype render_error = ReferenceError string

text \<open>
  \<open>run_body env body\<close> runs the statements of a body; \<open>env\<close> holds the bindings
  initialised so far.  \<open>Call_now xs\<close> is a function called during the render that reads
  the bindings \<open>xs\<close> in this order.
\<close>

fun run_body :: "string list \<Rightarrow> stmt list \<Rightarrow> render_error + string list" where
  "run_body env [] = Inr env"
| "run_body env (Declare xs # body) = run_body (env @ xs) body"
| "run_body env (Call_now xs # body) =
     (case filter (\<lambda>x. x \<notin> set env) xs of
        [] \<Rightarrow> run_body env body
      | x # _ \<Rightarrow> Inl (ReferenceError x))"
| "run_body env (Call_after_render xs # body) = run_body env body"

text \<open>
  The body of \<open>ScenarioOrchestrator\<close> (lines 35 to 203): its fetches are started from
  \<^verbatim>\<open>useEffect\<close>.
\<close>

definition ScenarioOrchestrator_body :: "stmt list" where
  "ScenarioOrchestrator_body =
     [Declare [''apiBaseUrl''],
      Declare [''scenarios'', ''setScenarios''],
      Declare [''destinations'', ''setDestinations''],
      Declare [''config'', ''setConfig''],
      Declare [''isRunning'', ''setIsRunning''],
      Declare [''progress'', ''setProgress''],
      Declare [''loading'', ''setLoading''],
      Declare [''error'', ''setError''],
      Call_after_render [''fetchScenarios'', ''fetchDestinations''],
      Declare [''fetchScenarios''],
      Declare [''fetchDestinations''],
      Declare [''runScenario''],
      Declare [''stopScenario''],
      Declare [''clearProgress''],
      Declare [''generateTraceId'']]"

text \<open>
  The body of \<open>FileUploader\<close> (lines 23 to 214): its fetches are started from a function
  passed to \<^verbatim>\<open>useState\<close> (lines 40 to 43), which stands before the statements that
  initialise \<open>fetchFiles\<close> and \<open>fetchDestinations\<close>.
\<close>

definition FileUploader_body :: "stmt list" where
  "FileUploader_body =
     [Declare [''apiBaseUrl''],
      Declare [''files'', ''setFiles''],
      Declare [''destinations'', ''setDestinations''],
      Declare [''dragActive'', ''setDragActive''],
      Declare [''uploading'', ''setUploading''],
      Declare [''processing'', ''setProcessing''],
      Declare [''progress'', ''setProgress''],
      Declare [''error'', ''setError''],
      Declare [''fileInputRef''],
      Declare [''processConfig'', ''setProcessConfig''],
      Call_now [''fetchFiles'', ''fetchDestinations''],
      Declare [''fetchFiles''],
      Declare [''fetchDestinations''],
      Declare [''handleDrag''],
      Declare [''handleDrop''],
      Declare [''handleFiles''],
      Declare [''processFile''],
      Declare [''deleteFile''],
      Declare [''formatFileSize'']]"

text \<open>
  The values that the state hooks of \<open>FileUploader\<close> are given (lines 23 to 38).  This
  is the state of the component only if its first render succeeds.
\<close>

definition useState_values_fu :: uploader_state where
  "useState_values_fu =
     \<lparr>files = [], destinations_fu = [], dragActive = False, uploading = False,
      processing = None, progress_fu = [], error_fu = [],
      processConfig = \<lparr>pc_destination = [], pc_sourcetype = [], pc_batch_size = 100,
                       pc_eps = 10, pc_endpoint = Event\<rparr>,
      requests_fu = []\<rparr>"

definition mount_FileUploader :: "render_error + uploader_state" where
  "mount_FileUploader =
     (case run_body [] FileUploader_body of
        Inl e \<Rightarrow> Inl e
      | Inr _ \<Rightarrow> Inr useState_values_fu)"

text \<open>
  \<open>handleDrop\<close>, the handler through which a dropped file reaches \<open>handleFiles\<close>, and
  what dropping files on the page does: the handler runs only if the component was
  rendered.
\<close>

definition handleDrop :: "browser_file list \<Rightarrow> uploader_state \<Rightarrow> uploader_state \<times> bool" where
  "handleDrop fileList s =
     (if fileList \<noteq> [] then handleFiles_start fileList (s\<lparr>dragActive := False\<rparr>)
      else (s\<lparr>dragActive := False\<rparr>, False))"

definition drop_on_page :: "browser_file list \<Rightarrow> render_error + uploader_state \<times> bool" where
  "drop_on_page fileList =
     (case mount_FileUploader of
        Inl e \<Rightarrow> Inl e
      | Inr s \<Rightarrow> Inr (handleDrop fileList s))"

section \<open>The receiver of a run request\<close>

text \<open>
  Modelled from the spec: the configuration of a run as the run controller receives it
  (spec 3, RunConfig).  The code that receives \<^verbatim>\<open>POST /api/v1/scenarios/run\<close>, starts
  the run and produces the events is not among the sources; only its caller
  \<open>runScenario\<close> is.
\<close>

record run_config =
  rc_scenario_id :: string
  rc_destination_id :: string
  rc_workers :: int
  rc_eps :: real
  rc_tag_phase :: bool
  rc_tag_trace :: bool
  rc_trace_id :: "string option"
  rc_generate_noise :: bool
  rc_noise_count :: int


text \<open>Modelled from the spec: the status of a run and the state of a run (spec 3, RunState).\<close>

datatype run_status = Pending | Running | Cancelling | Completed | Failed | Cancelled

record run_state =
  run_cfg :: run_config
  status :: run_status
  phase_index :: nat
  emitted_count :: nat
  failed_count :: nat



text \<open>
  Modelled from the spec: an event (spec 3) and the correlation tagger (spec 4.5), which
  is not among the sources.  The tagger puts the trace id of the run on the event when
  \<open>tag_trace\<close> is set and leaves the event unchanged otherwise.  Only the trace id is
  modelled; the phase and the time of the envelope are left out.
\<close>

record event =
  ev_id :: string
  ev_scheduled_at :: int
  ev_phase_name :: string
  ev_trace_id :: "string option"
  ev_payload :: string


section \<open>The progress log is bounded\<close>

lemma length_slice_last: "length (slice_last n xs) = min n (length xs)"
  by (simp add: slice_last_def)

text \<open>
  Claim C9.  Whatever the log held before and whatever line arrives, the streaming update
  of the scenario orchestrator returns at most 31 entries, and the updates of the event
  generator and of the file processing return at most 21 entries.
\<close>

theorem progress_log_bounded:
  "length (append_line prev line) = min 30 (length prev) + 1
   \<and> length (append_line prev line) \<le> 31
   \<and> length (append_line_eg prev line) \<le> 21
   \<and> length (append_line_fu prev line) \<le> 21"
  by (simp add: append_line_def append_line_eg_def append_line_fu_def length_slice_last)

section \<open>What happens to a full log\<close>

lemma slice_last_suffix: "take (length xs - n) xs @ slice_last n xs = xs"
  by (simp add: slice_last_def)

lemma set_slice_last: "set (slice_last n xs) \<subseteq> set xs"
  by (simp add: slice_last_def set_drop_subset)

text \<open>
  Claim C3 says that appending to a log at capacity puts one synthetic
  "progress truncated" marker in the place of the dropped entries.  The 31 lines of a
  full log are numbered here; after the update the first of them is gone and nothing
  stands in its place.
\<close>

theorem truncation_marker_counterexample:
  "length (map batch_line [1..<32]) = 31
   \<and> append_line (map batch_line [1..<32]) ''PHASE 2: Compromise''
       = map batch_line [2..<32] @ [''PHASE 2: Compromise'']
   \<and> count_list (append_line (map batch_line [1..<32]) ''PHASE 2: Compromise'')
         ''progress truncated'' = 0"
  by code_simp

text \<open>
  Claim C3 as amended.  When the log holds at least 30 lines (20 for the event generator
  and the file processing), the update keeps exactly its last 30 (20) lines, in order,
  followed by the new line, and drops the older ones.  Every entry of the result is a
  line of the old log or the new line: no marker is inserted.
\<close>

theorem append_line_keeps_latest:
  "(30 \<le> length prev \<longrightarrow>
      length (append_line prev line) = 31
      \<and> take (length prev - 30) prev @ butlast (append_line prev line) = prev
      \<and> last (append_line prev line) = line)
   \<and> (20 \<le> length prev \<longrightarrow>
      length (append_line_fu prev line) = 21
      \<and> take (length prev - 20) prev @ butlast (append_line_fu prev line) = prev
      \<and> last (append_line_fu prev line) = line
      \<and> append_line_eg prev line = append_line_fu prev line)
   \<and> set (append_line prev line) \<subseteq> insert line (set prev)
   \<and> set (append_line_fu prev line) \<subseteq> insert line (set prev)
   \<and> set (append_line_eg prev line) \<subseteq> insert line (set prev)"
proof -
  have keep: "take (length prev - n) prev @ butlast (slice_last n prev @ [line]) = prev" for n
    by (simp add: slice_last_suffix)
  have sub: "set (slice_last n prev @ [line]) \<subseteq> insert line (set prev)" for n
    using set_slice_last [of n prev] by auto
  show ?thesis
    unfolding append_line_def append_line_fu_def append_line_eg_def
    using keep sub by (simp add: length_slice_last)
qed

theorem append_line_keeps_latest_witness:
  "30 \<le> length (map batch_line [1..<32])
   \<and> length (append_line (map batch_line [1..<32]) ''PHASE 2: Compromise'') = 31
   \<and> last (append_line (map batch_line [1..<32]) ''PHASE 2: Compromise'')
       = ''PHASE 2: Compromise''
   \<and> length (append_line_fu (map batch_line [1..<32]) ''INFO done'') = 21
   \<and> last (append_line_eg (map batch_line [1..<32]) ''INFO done'') = ''INFO done''"
  using append_line_keeps_latest [of "map batch_line [1..<32]" "''PHASE 2: Compromise''"]
    append_line_keeps_latest [of "map batch_line [1..<32]" "''INFO done''"]
  by simp

section \<open>Stopping a scenario\<close>

lemma finish_after_stop:
  "progress (fst (runScenario_read ReadDone (stopScenario s)))
     = progress s @ [''Scenario execution stopped by user'',
                     ''Attack scenario completed successfully!'']"
  by (simp add: stopScenario_def runScenario_finish_def)

text \<open>
  Claim C1 says that after \<open>stopScenario\<close> no completion is reported.  In this run the
  scenario is started, one chunk of the stream is read, the user clicks Stop, and then the
  stream ends: the loop of \<open>runScenario\<close> does not look at \<open>isRunning\<close>, so the line
  of completion is appended after the line of the stop.
\<close>

theorem stop_then_completed:
  "isRunning running_state
   \<and> \<not> isRunning (click_stop (fst (runScenario_read (ReadChunk (''PHASE 1: Phishing'' @ [CHR 0x0A]))
         running_state)))
   \<and> progress (fst (runScenario_read ReadDone
        (click_stop (fst (runScenario_read (ReadChunk (''PHASE 1: Phishing'' @ [CHR 0x0A]))
           running_state)))))
      = [''Initializing attack scenario...'', ''PHASE 1: Phishing'',
         ''Scenario execution stopped by user'', ''Attack scenario completed successfully!'']"
  by code_simp

text \<open>
  Claim C4 says that a second \<open>stopScenario\<close> changes nothing.  On the running state the
  second call appends a second line to the log.
\<close>

theorem stop_twice_counterexample:
  "isRunning running_state
   \<and> progress (stopScenario running_state)
       = [''Initializing attack scenario...'', ''Scenario execution stopped by user'']
   \<and> progress (stopScenario (stopScenario running_state))
       = [''Initializing attack scenario...'', ''Scenario execution stopped by user'',
          ''Scenario execution stopped by user'']
   \<and> stopScenario (stopScenario running_state) \<noteq> stopScenario running_state"
proof -
  have p1: "progress (stopScenario running_state)
     = [''Initializing attack scenario...'', ''Scenario execution stopped by user'']"
    by code_simp
  have p2: "progress (stopScenario (stopScenario running_state))
     = [''Initializing attack scenario...'', ''Scenario execution stopped by user'',
        ''Scenario execution stopped by user'']"
    by code_simp
  have r: "isRunning running_state"
    by code_simp
  have "progress (stopScenario (stopScenario running_state))
          \<noteq> progress (stopScenario running_state)"
    unfolding p1 p2 by simp
  then have "stopScenario (stopScenario running_state) \<noteq> stopScenario running_state"
    by auto
  with p1 p2 r show ?thesis by simp
qed

text \<open>
  Claim C4 as amended.  Two calls of \<open>stopScenario\<close> give the state of one call except
  for the log, which receives the line of the stop once more; \<open>isRunning\<close> is false
  after either.  The Stop button exists only while \<open>isRunning\<close> holds, so clicking it
  twice is the same as clicking it once.
\<close>

theorem stop_twice:
  "stopScenario (stopScenario s)
     = (stopScenario s)\<lparr>progress := progress (stopScenario s)
                                      @ [''Scenario execution stopped by user'']\<rparr>
   \<and> isRunning (stopScenario s) = False
   \<and> isRunning (stopScenario (stopScenario s)) = False
   \<and> click_stop (click_stop s) = click_stop s"
  by (simp add: stopScenario_def click_stop_def)

section \<open>Starting a run without a selection\<close>

text \<open>
  Claim C2.  When the scenario or the destination of the configuration is empty,
  \<open>runScenario\<close> only sets the error message: no request is issued, \<open>isRunning\<close> and
  the log are as before.  \<open>processFile\<close> does the same when the destination (or the
  sourcetype) of its configuration is empty.
\<close>

theorem start_without_selection:
  "(scenario_id (config s) = [] \<or> destination_id (config s) = [] \<longrightarrow>
      runScenario_start s = s\<lparr>error := ''Please select both scenario and destination''\<rparr>
      \<and> requests (runScenario_start s) = requests s
      \<and> isRunning (runScenario_start s) = isRunning s
      \<and> progress (runScenario_start s) = progress s
      \<and> config (runScenario_start s) = config s)
   \<and> (pc_destination (processConfig u) = [] \<or> pc_sourcetype (processConfig u) = [] \<longrightarrow>
      processFile_start fileId u
        = u\<lparr>error_fu := ''Please select destination and enter sourcetype''\<rparr>
      \<and> requests_fu (processFile_start fileId u) = requests_fu u
      \<and> processing (processFile_start fileId u) = processing u
      \<and> progress_fu (processFile_start fileId u) = progress_fu u
      \<and> files (processFile_start fileId u) = files u)"
  by (simp add: runScenario_start_def processFile_start_def falsy_def)

theorem start_without_selection_witness:
  "scenario_id (config loaded_state) = []
   \<and> runScenario_start loaded_state
       = loaded_state\<lparr>error := ''Please select both scenario and destination''\<rparr>
   \<and> requests (runScenario_start loaded_state) = []
   \<and> isRunning (runScenario_start loaded_state) = False
   \<and> processFile_start ''f1''
        \<lparr>files = [], destinations_fu = [], dragActive = False, uploading = False,
          processing = None, progress_fu = [], error_fu = [],
          processConfig = \<lparr>pc_destination = [], pc_sourcetype = ''json'',
                           pc_batch_size = 100, pc_eps = 10, pc_endpoint = Event\<rparr>,
          requests_fu = []\<rparr>
       = \<lparr>files = [], destinations_fu = [], dragActive = False, uploading = False,
          processing = None, progress_fu = [],
          error_fu = ''Please select destination and enter sourcetype'',
          processConfig = \<lparr>pc_destination = [], pc_sourcetype = ''json'',
                           pc_batch_size = 100, pc_eps = 10, pc_endpoint = Event\<rparr>,
          requests_fu = []\<rparr>"
  using start_without_selection [of loaded_state
        "\<lparr>files = [], destinations_fu = [], dragActive = False, uploading = False,
          processing = None, progress_fu = [], error_fu = [],
          processConfig = \<lparr>pc_destination = [], pc_sourcetype = ''json'',
                           pc_batch_size = 100, pc_eps = 10, pc_endpoint = Event\<rparr>,
          requests_fu = []\<rparr>" "''f1''"]
  by (simp add: loaded_state_def initial_state_def initial_config_def)

section \<open>The trace id\<close>

text \<open>
  What the component does with the trace id.  \<open>runScenario\<close> posts the configuration
  as it is and no step of it changes the configuration; a trace id is made by the component
  only in \<open>generateTraceId\<close> (the Generate button).
\<close>

lemma runScenario_posts_config:
  "scenario_id (config s) \<noteq> [] \<Longrightarrow> destination_id (config s) \<noteq> [] \<Longrightarrow>
   requests (runScenario_start s) = requests s @ [config s]
   \<and> isRunning (runScenario_start s)
   \<and> config (runScenario_start s) = config s"
  by (simp add: runScenario_start_def falsy_def)

lemma runScenario_keeps_config:
  "config (fst (runScenario_response resp s)) = config s
   \<and> config (fst (runScenario_read rd s)) = config s"
proof -
  have a: "config (fst (runScenario_response resp s)) = config s"
    by (cases resp) (simp_all add: runScenario_catch_def runScenario_finish_def Let_def)
  have b: "config (fst (runScenario_read rd s)) = config s"
    by (cases rd) (simp_all add: runScenario_catch_def runScenario_finish_def Let_def)
  show ?thesis
    using a b by simp
qed

lemma generateTraceId_sets_trace_id:
  "trace_id (config (generateTraceId timestamp random s))
       = ''pulse-'' @ timestamp @ ''-'' @ random
   \<and> trace_id (config (generateTraceId timestamp random s)) \<noteq> []"
  by (simp add: generateTraceId_def)

lemma empty_trace_id_posted:
  "tag_trace (config example_state)
   \<and> trace_id (config example_state) = []
   \<and> isRunning (runScenario_start example_state)
   \<and> requests (runScenario_start example_state) = [example_config]
   \<and> tag_trace example_config
   \<and> trace_id example_config = []"
  by code_simp



section \<open>The destinations a scenario can be sent to\<close>

text \<open>
  Claim C6 says that every configured destination, HEC or syslog, can be selected as the
  target of a scenario run.  The sample state has one destination of each kind; only
  the HEC one is among the options of the select.
\<close>

theorem syslog_not_selectable_counterexample:
  "\<lparr>dest_id = ''d2'', dest_name = ''Lab syslog'', dest_type = Syslog\<rparr>
      \<in> set (destinations example_state)
   \<and> \<lparr>dest_id = ''d2'', dest_name = ''Lab syslog'', dest_type = Syslog\<rparr>
      \<notin> set (destination_options example_state)
   \<and> map dest_id (destination_options example_state) = [''d1'']"
  by (simp add: example_state_def loaded_state_def initial_state_def destination_options_def)

text \<open>
  Claim C6 as amended.  The destinations that can be selected for a scenario run are
  exactly the configured destinations of kind HEC; a syslog destination is never among
  them.
\<close>

theorem only_hec_selectable:
  "set (destination_options s) = {d \<in> set (destinations s). dest_type d = Hec}
   \<and> (dest_type d = Syslog \<longrightarrow> d \<notin> set (destination_options s))"
  by (auto simp: destination_options_def)

theorem only_hec_selectable_witness:
  "dest_type \<lparr>dest_id = ''d2'', dest_name = ''Lab syslog'', dest_type = Syslog\<rparr> = Syslog
   \<and> \<lparr>dest_id = ''d2'', dest_name = ''Lab syslog'', dest_type = Syslog\<rparr>
      \<notin> set (destination_options example_state)
   \<and> \<lparr>dest_id = ''d1'', dest_name = ''Lab HEC'', dest_type = Hec\<rparr>
      \<in> set (destination_options example_state)"
  using only_hec_selectable [of example_state
      "\<lparr>dest_id = ''d2'', dest_name = ''Lab syslog'', dest_type = Syslog\<rparr>"]
  by (simp add: example_state_def loaded_state_def initial_state_def)

section \<open>The number of workers\<close>

lemma parseInt_or_not_zero: "d \<noteq> 0 \<Longrightarrow> parseInt_or v d \<noteq> 0"
  by (simp add: parseInt_or_def split: option.splits)

text \<open>
  Claim C7 says that no update through the handler of the workers input can leave
  \<open>workers\<close> below 1 or above 50.  The handler stores whatever integer \<open>parseInt\<close>
  reads (1 when it reads none, or 0): typing 100 stores 100, typing -5 stores -5.
\<close>

theorem workers_out_of_range:
  "\<not> loading loaded_state
   \<and> \<not> isRunning loaded_state
   \<and> workers (config loaded_state) = 10
   \<and> workers (config (onChange_workers ''100'' loaded_state)) = 100
   \<and> workers (config (onChange_workers ''-5'' loaded_state)) = - 5"
  by code_simp

section \<open>The payload of a new destination\<close>

text \<open>
  Claim C8.  The payload that \<open>handleSubmit\<close> posts has kind HEC or syslog.  For HEC
  its keys are name, type and url; for syslog they are name, type, ip, port and protocol,
  the protocol being TCP or UDP.  (The port is what \<open>parseInt\<close> reads from the form.)
\<close>

theorem payload_of_kind:
  "(fd_type f = Hec \<or> fd_type f = Syslog)
   \<and> (fd_type f = Hec \<longrightarrow>
        map fst (payload f) = [''name'', ''type'', ''url'']
        \<and> map_of (payload f) ''type'' = Some (JString ''hec'')
        \<and> map_of (payload f) ''url'' = Some (JString (fd_url f)))
   \<and> (fd_type f = Syslog \<longrightarrow>
        map fst (payload f) = [''name'', ''type'', ''ip'', ''port'', ''protocol'']
        \<and> map_of (payload f) ''type'' = Some (JString ''syslog'')
        \<and> map_of (payload f) ''ip'' = Some (JString (fd_ip f))
        \<and> map_of (payload f) ''port'' = Some (JNumber (parseInt (fd_port f)))
        \<and> (map_of (payload f) ''protocol'' = Some (JString ''TCP'')
           \<or> map_of (payload f) ''protocol'' = Some (JString ''UDP'')))"
proof -
  have k: "fd_type f = Hec \<or> fd_type f = Syslog"
    by (cases "fd_type f") simp_all
  have p: "protocol_string (fd_protocol f) = ''TCP'' \<or> protocol_string (fd_protocol f) = ''UDP''"
    by (cases "fd_protocol f") (simp_all add: protocol_string_def)
  show ?thesis
    using k p by (simp add: payload_def type_string_def)
qed

theorem payload_of_kind_witness:
  "fd_type hec_form = Hec
   \<and> map fst (payload hec_form) = [''name'', ''type'', ''url'']
   \<and> map_of (payload hec_form) ''url'' = Some (JString ''https://hec.example.net/raw'')
   \<and> fd_type syslog_form = Syslog
   \<and> map fst (payload syslog_form) = [''name'', ''type'', ''ip'', ''port'', ''protocol'']
   \<and> map_of (payload syslog_form) ''ip'' = Some (JString ''192.168.1.100'')
   \<and> map_of (payload syslog_form) ''port'' = Some (JNumber (parseInt ''514''))
   \<and> map_of (payload syslog_form) ''protocol'' = Some (JString ''UDP'')"
  using payload_of_kind [of hec_form] payload_of_kind [of syslog_form]
  by (simp add: hec_form_def syslog_form_def payload_def protocol_string_def)

section \<open>The check of an uploaded file\<close>

lemma split_js_not_Nil: "split_js sep cs \<noteq> []"
  by (induction cs) (auto split: list.splits)

lemma split_js_no_sep: "sep \<notin> set cs \<Longrightarrow> split_js sep cs = [cs]"
  by (induction cs) auto

lemma split_js_append: "split_js sep (xs @ sep # ys) = split_js sep xs @ split_js sep ys"
proof (induction xs)
  case Nil
  show ?case by simp
next
  case (Cons x xs)
  obtain p ps where sp: "split_js sep xs = p # ps"
    using split_js_not_Nil [of sep xs] by (cases "split_js sep xs") simp_all
  show ?case
    by (simp add: Cons.IH sp)
qed

text \<open>A name without a dot is its own "extension" for \<open>handleFiles\<close>.\<close>

lemma fileExt_dotless: "CHR ''.'' \<notin> set name \<Longrightarrow> fileExt name = ''.'' @ toLowerCase name"
  by (simp add: fileExt_def split_js_no_sep)

text \<open>On a name with a dot, \<open>handleFiles\<close> computes the extension.\<close>

lemma fileExt_extension_spec:
  assumes d: "CHR ''.'' \<in> set name"
  shows "fileExt name = extension_spec name"
proof -
  obtain xs ys where n: "name = xs @ CHR ''.'' # ys" and ys: "CHR ''.'' \<notin> set ys"
    using d split_list_last [of "CHR ''.''" name] by blast
  have "rev (split_js CHR ''.'' name) = ys # rev (split_js CHR ''.'' xs)"
    using ys by (simp add: n split_js_append split_js_no_sep)
  then have f: "fileExt name = ''.'' @ toLowerCase ys"
    by (simp add: fileExt_def)
  have "\<forall>c \<in> set (rev ys). c \<noteq> CHR ''.''"
    using ys by auto
  then have "takeWhile (\<lambda>c. c \<noteq> CHR ''.'') (rev ys @ CHR ''.'' # rev xs) = rev ys"
    by (simp add: takeWhile_tail)
  then have "takeWhile (\<lambda>c. c \<noteq> CHR ''.'') (rev name) = rev ys"
    by (simp add: n)
  then show ?thesis using d f by (simp add: extension_spec_def)
qed

text \<open>A file that fails one of the two checks only sets the error message.\<close>

lemma handleFiles_bad_type:
  "fileExt (file_name f) \<notin> set allowedTypes \<Longrightarrow>
   handleFiles_start (f # fs) s
     = (s\<lparr>error_fu := ''Invalid file type. Allowed: .csv, .json, .txt, .log, .gz''\<rparr>, False)"
  by (simp add: handleFiles_start_def allowedTypes_def)

lemma handleFiles_too_big:
  "fileExt (file_name f) \<in> set allowedTypes \<Longrightarrow> file_size f > 50 * 1024 * 1024 \<Longrightarrow>
   handleFiles_start (f # fs) s = (s\<lparr>error_fu := ''File size must be less than 50MB''\<rparr>, False)"
  by (simp add: handleFiles_start_def)

text \<open>The upload request is issued exactly for the files that pass both checks.\<close>

lemma handleFiles_uploads_iff:
  "snd (handleFiles_start fl s) \<longleftrightarrow>
     (\<exists>f fs. fl = f # fs \<and> fileExt (file_name f) \<in> set allowedTypes
        \<and> file_size f \<le> 50 * 1024 * 1024)"
  by (auto simp: handleFiles_start_def split: list.splits)

lemma handleFiles_requests:
  "requests_fu (fst (handleFiles_start fl s))
     = (if snd (handleFiles_start fl s) then requests_fu s @ [UploadFile (hd fl)]
        else requests_fu s)"
  by (auto simp: handleFiles_start_def split: list.splits)

text \<open>The first render of the two components.\<close>

lemma ScenarioOrchestrator_renders:
  "\<exists>env. run_body [] ScenarioOrchestrator_body = Inr env"
  by (simp add: ScenarioOrchestrator_body_def)

lemma FileUploader_render_throws:
  "run_body [] FileUploader_body = Inl (ReferenceError ''fetchFiles'')"
  by (simp add: FileUploader_body_def)

text \<open>On the text of \<open>handleFiles\<close>, in any state, the file without a dot is uploaded.\<close>

lemma dotless_name_accepted:
  "extension_spec (file_name dotless_file) = []
   \<and> extension_spec (file_name dotless_file) \<notin> set allowedTypes
   \<and> file_size dotless_file \<le> 50 * 1024 * 1024
   \<and> fileExt (file_name dotless_file) = ''.csv''
   \<and> handleFiles_start [dotless_file] s
       = (s\<lparr>uploading := True, error_fu := [],
            requests_fu := requests_fu s @ [UploadFile dotless_file]\<rparr>, True)"
proof -
  have e: "fileExt ''csv'' = ''.csv''"
    by code_simp
  have x: "extension_spec ''csv'' = []"
    by (simp add: extension_spec_def)
  show ?thesis
    by (simp add: dotless_file_def e x handleFiles_start_def allowedTypes_def)
qed

text \<open>
  Claim C10 says that for a file whose extension is not one of .csv, .json, .txt, .log,
  .gz, \<open>handleFiles\<close> sets an error message and issues no upload.  The first render of
  \<open>FileUploader\<close> throws, because the function it passes to \<^verbatim>\<open>useState\<close> calls
  \<open>fetchFiles\<close> before that binding is initialised; so when the file
  \<^verbatim>\<open>notes.pdf\<close> is dropped on the page no handler runs and no error message is set.
  And on the text of \<open>handleFiles\<close>, in whatever state it runs, the file named
  \<^verbatim>\<open>csv\<close>, which has no extension, passes the check and its upload is issued.
\<close>

theorem upload_check_fails:
  "mount_FileUploader = Inl (ReferenceError ''fetchFiles'')
   \<and> drop_on_page [\<lparr>file_name = ''notes.pdf'', file_size = 1\<rparr>]
       = Inl (ReferenceError ''fetchFiles'')
   \<and> extension_spec (file_name dotless_file) \<notin> set allowedTypes
   \<and> snd (handleDrop [dotless_file] s)
   \<and> requests_fu (fst (handleDrop [dotless_file] s))
       = requests_fu s @ [UploadFile dotless_file]
   \<and> error_fu (fst (handleDrop [dotless_file] s)) = []"
proof -
  have m: "mount_FileUploader = Inl (ReferenceError ''fetchFiles'')"
    by (simp add: mount_FileUploader_def FileUploader_body_def)
  have e: "fileExt ''csv'' = ''.csv''"
    by code_simp
  have x: "extension_spec ''csv'' = []"
    by (simp add: extension_spec_def)
  show ?thesis
    by (simp add: m drop_on_page_def handleDrop_def dotless_file_def e x
        handleFiles_start_def allowedTypes_def)
qed

end
